theory Spec2Isabelle
  imports Complex_Main
begin

section \<open>Arrays and the tensor-library operations the notebooks call\<close>

text \<open>
  The notebooks compute on library arrays only. An array is its shape together with its
  entries in row-major order, as the library stores it; entries are modelled as real
  numbers. The exception a library raises on incompatible shapes is \<open>ShapeError\<close>; an
  array that cannot be created gives \<open>ValueError\<close> (a negative extent, an extent or a
  size beyond the largest index) or \<open>MemoryError\<close>; and the two ways Python reports a
  name without a binding are \<open>NameError\<close> (a global) and \<open>UnboundLocalError\<close> (a local).
\<close>

datatype error =
  NameError string | UnboundLocalError string | ShapeError | ValueError | MemoryError

record ndarray =
  shape :: "nat list"
  data :: "real list"

definition well_formed :: "ndarray \<Rightarrow> bool" where
  \<comment> \<open>an array holds as many entries as its shape says\<close>
  "well_formed a \<longleftrightarrow> length (data a) = prod_list (shape a)"

type_synonym params = "(ndarray \<times> ndarray) list"

definition bind_err :: "error + 'a \<Rightarrow> ('a \<Rightarrow> error + 'b) \<Rightarrow> error + 'b" where
  "bind_err m f = (case m of Inl e \<Rightarrow> Inl e | Inr x \<Rightarrow> f x)"

subsection \<open>Broadcasting\<close>

text \<open>
  Shapes are aligned at their last axis; two extents are compatible when they are equal or
  one of them is 1. \<open>bshape_rev\<close> works on the reversed shapes.
\<close>

fun bshape_rev :: "nat list \<Rightarrow> nat list \<Rightarrow> nat list option" where
  "bshape_rev [] ys = Some ys"
| "bshape_rev (x # xs) [] = Some (x # xs)"
| "bshape_rev (x # xs) (y # ys) =
     (if x = y \<or> y = 1 then map_option ((#) x) (bshape_rev xs ys)
      else if x = 1 then map_option ((#) y) (bshape_rev xs ys)
      else None)"

definition broadcast_shapes :: "nat list \<Rightarrow> nat list \<Rightarrow> nat list option" where
  "broadcast_shapes s t = map_option rev (bshape_rev (rev s) (rev t))"

fun bcast :: "nat list \<Rightarrow> nat list \<Rightarrow> real list \<Rightarrow> real list" where
  "bcast (s # ss) (t # ts) xs =
     (let k = prod_list ss;
          blocks = map (\<lambda>i. bcast ss ts (take k (drop (i * k) xs))) [0..<s]
      in if s = t then concat blocks else concat (replicate t (concat blocks)))"
| "bcast _ _ xs = xs"

definition broadcast_to :: "nat list \<Rightarrow> ndarray \<Rightarrow> real list" where
  "broadcast_to t a =
     bcast (replicate (length t - length (shape a)) 1 @ shape a) t (data a)"

definition broadcast_op :: "(real \<Rightarrow> real \<Rightarrow> real) \<Rightarrow> ndarray \<Rightarrow> ndarray \<Rightarrow> error + ndarray" where
  "broadcast_op f a b =
     (case broadcast_shapes (shape a) (shape b) of
        None \<Rightarrow> Inl ShapeError
      | Some s \<Rightarrow> Inr \<lparr>shape = s, data = map2 f (broadcast_to s a) (broadcast_to s b)\<rparr>)"

definition add :: "ndarray \<Rightarrow> ndarray \<Rightarrow> error + ndarray" where
  "add = broadcast_op (+)"

definition sub :: "ndarray \<Rightarrow> ndarray \<Rightarrow> error + ndarray" where
  "sub = broadcast_op (-)"

definition smul :: "real \<Rightarrow> ndarray \<Rightarrow> ndarray" where
  \<comment> \<open>a Python float times an array\<close>
  "smul c a = a\<lparr>data := map ((*) c) (data a)\<rparr>"

definition jnp_tanh :: "ndarray \<Rightarrow> ndarray" where
  "jnp_tanh a = a\<lparr>data := map tanh (data a)\<rparr>"

subsection \<open>The dot product\<close>

text \<open>
  \<open>jnp.dot a b\<close>: with a scalar operand it is the elementwise product; otherwise it sums
  over the last axis of \<open>a\<close> and the second-to-last axis of \<open>b\<close> (the only axis of a
  one-dimensional \<open>b\<close>), and raises when the two extents differ. The result's shape is
  the remaining axes of \<open>a\<close> followed by the remaining axes of \<open>b\<close>.
\<close>

definition jnp_dot :: "ndarray \<Rightarrow> ndarray \<Rightarrow> error + ndarray" where
  "jnp_dot a b =
     (if shape a = [] \<or> shape b = [] then broadcast_op (*) a b
      else
        let n = last (shape a);
            lead = butlast (shape a);
            one_d = (length (shape b) = 1);
            outer = (if one_d then [] else butlast (butlast (shape b)));
            nb = (if one_d then last (shape b) else last (butlast (shape b)));
            cols = (if one_d then [] else [last (shape b)]);
            c = prod_list cols
        in if n \<noteq> nb then Inl ShapeError
           else Inr \<lparr>shape = lead @ outer @ cols,
                     data = concat (map (\<lambda>i. concat (map (\<lambda>k. map (\<lambda>m.
                              sum_list (map (\<lambda>l. data a ! (i * n + l) * data b ! ((k * n + l) * c + m))
                                            [0..<n]))
                              [0..<c]) [0..<prod_list outer])) [0..<prod_list lead])\<rparr>)"

section \<open>The feedforward pass\<close>

text \<open>
  \<^verbatim>\<open>
  def fcn(theta, xs):
      for w, b in theta:
        outputs = jnp.dot(xs, w) + b
        xs = jnp.tanh(outputs)
      return outputs
  \<close>
  The local \<open>outputs\<close> has no binding before the first iteration: the loop carries it as an
  option, and \<open>return outputs\<close> raises when it is still unbound.
\<close>

definition linear :: "ndarray \<Rightarrow> ndarray \<Rightarrow> ndarray \<Rightarrow> error + ndarray" where
  \<comment> \<open>\<open>jnp.dot(xs, w) + b\<close>\<close>
  "linear w b xs = bind_err (jnp_dot xs w) (\<lambda>d. add d b)"

fun fcn_loop :: "params \<Rightarrow> ndarray \<Rightarrow> ndarray option \<Rightarrow> error + ndarray option" where
  "fcn_loop [] xs outputs = Inr outputs"
| "fcn_loop ((w, b) # theta) xs outputs =
     (case linear w b xs of
        Inl e \<Rightarrow> Inl e
      | Inr out \<Rightarrow> fcn_loop theta (jnp_tanh out) (Some out))"

definition fcn :: "params \<Rightarrow> ndarray \<Rightarrow> error + ndarray" where
  "fcn theta xs =
     (case fcn_loop theta xs None of
        Inl e \<Rightarrow> Inl e
      | Inr None \<Rightarrow> Inl (UnboundLocalError ''outputs'')
      | Inr (Some out) \<Rightarrow> Inr out)"

text \<open>
  The reading of the feedforward pass as a composition of per-layer steps, each a linear
  transform followed by the nonlinearity.
\<close>

definition layer_step :: "ndarray \<times> ndarray \<Rightarrow> ndarray \<Rightarrow> error + ndarray" where
  "layer_step l xs = bind_err (linear (fst l) (snd l) xs) (\<lambda>out. Inr (jnp_tanh out))"

fun compose_layers :: "params \<Rightarrow> ndarray \<Rightarrow> error + ndarray" where
  "compose_layers [] xs = Inr xs"
| "compose_layers (l # ls) xs = bind_err (layer_step l xs) (compose_layers ls)"

text \<open>
  Shape compatibility of an input of shape \<open>s\<close> with a parameter list: every weight is a
  \<open>p \<times> q\<close> matrix whose \<open>p\<close> is the last extent of what reaches it, every bias a
  \<open>q\<close>-vector.
\<close>

fun compatible :: "params \<Rightarrow> nat list \<Rightarrow> bool" where
  "compatible [] s = True"
| "compatible ((w, b) # theta) s =
     (case shape w of
        [p, q] \<Rightarrow> s \<noteq> [] \<and> last s = p \<and> shape b = [q] \<and> compatible theta (butlast s @ [q])
      | _ \<Rightarrow> False)"

section \<open>Random initialisation of the parameters\<close>

text \<open>
  A \<open>RandomState\<close> is modelled by the sequence of samples it has still to deliver; drawing
  \<open>k\<close> samples returns the first \<open>k\<close> and the generator advanced by \<open>k\<close>.
  \<open>rng.randn(d0, ..., dn)\<close> fills an array of that shape in row-major order. It raises
  \<open>ValueError\<close> on a negative dimension, and it raises when the platform cannot create an
  array of the shape asked for.

  Which shapes a platform refuses (an extent or a size beyond its largest index, more
  entries than its memory holds), and with which exception, is not in the notebook: it is a
  parameter. Of a platform only this is fixed, that it creates every array of at most two
  axes whose extents are at most 1024; the arrays the notebook itself asks for are of
  that kind.
\<close>

type_synonym rng = "nat \<Rightarrow> real"

definition draws :: "nat \<Rightarrow> rng \<Rightarrow> real list \<times> rng" where
  "draws k r = (map r [0..<k], \<lambda>n. r (n + k))"

typedef platform =
  "{f :: nat list \<Rightarrow> error option. \<forall>s. length s \<le> 2 \<and> (\<forall>d \<in> set s. d \<le> 1024) \<longrightarrow> f s = None}"
  morphisms refuses Platform
  by (rule exI [of _ "\<lambda>s. None"]) simp

definition randn :: "platform \<Rightarrow> int list \<Rightarrow> rng \<Rightarrow> (error + ndarray) \<times> rng" where
  "randn pf dims r =
     (if \<exists>d \<in> set dims. d < 0 then (Inl ValueError, r)
      else case refuses pf (map nat dims) of
             Some e \<Rightarrow> (Inl e, r)
           | None \<Rightarrow>
               let (xs, r') = draws (prod_list (map nat dims)) r
               in (Inr \<lparr>shape = map nat dims, data = xs\<rparr>, r'))"

text \<open>
  \<^verbatim>\<open>
  def init_random_params( N, rng=nprand.RandomState(0)):
      return [(rng.randn(p, q), rng.randn(q))
              for p, q, in zip(N[:-1], N[1:])]
  \<close>
  The weight of a pair is drawn before its bias, the pairs in order; the generator is
  returned with the result.
\<close>

fun init_pairs :: "platform \<Rightarrow> (int \<times> int) list \<Rightarrow> rng \<Rightarrow> (error + params) \<times> rng" where
  "init_pairs pf [] r = (Inr [], r)"
| "init_pairs pf ((p, q) # pqs) r =
     (case randn pf [p, q] r of
        (Inl e, r1) \<Rightarrow> (Inl e, r1)
      | (Inr w, r1) \<Rightarrow>
          (case randn pf [q] r1 of
             (Inl e, r2) \<Rightarrow> (Inl e, r2)
           | (Inr b, r2) \<Rightarrow>
               (case init_pairs pf pqs r2 of
                  (Inl e, r3) \<Rightarrow> (Inl e, r3)
                | (Inr rest, r3) \<Rightarrow> (Inr ((w, b) # rest), r3))))"

definition init_random_params :: "platform \<Rightarrow> int list \<Rightarrow> rng \<Rightarrow> (error + params) \<times> rng" where
  "init_random_params pf N r = init_pairs pf (zip (butlast N) (tl N)) r"

text \<open>
  The platform creates every array that \<open>init_random_params\<close> asks for on the layer
  sizes \<open>N\<close>: a weight of \<open>N[k] \<times> N[k+1]\<close> entries and a bias of \<open>N[k+1]\<close> for each
  pair of neighbours.
\<close>

fun creatable :: "platform \<Rightarrow> int list \<Rightarrow> bool" where
  "creatable pf (p # q # N) =
     (refuses pf [nat p, nat q] = None \<and> refuses pf [nat q] = None \<and> creatable pf (q # N))"
| "creatable pf N = True"

text \<open>The layout the layer sizes \<open>N\<close> prescribe for a parameter list.\<close>

definition layout :: "int list \<Rightarrow> params \<Rightarrow> bool" where
  "layout N ps \<longleftrightarrow>
     (\<forall>k < length ps. shape (fst (ps ! k)) = [nat (N ! k), nat (N ! Suc k)]
                      \<and> shape (snd (ps ! k)) = [nat (N ! Suc k)])"

definition same_structure :: "params \<Rightarrow> params \<Rightarrow> bool" where
  "same_structure ps qs \<longleftrightarrow>
     list_all2 (\<lambda>p q. shape (fst p) = shape (fst q) \<and> shape (snd p) = shape (snd q)) ps qs"

section \<open>The notebook's global names\<close>

text \<open>
  The global namespace of the Neural ODE notebook: a name is bound to a value or unbound.
  \<open>loop_i\<close> is the loop variable \<open>i\<close>; \<open>y_fn\<close> is the global \<open>y\<close>. The names
  \<open>NODE_L2loss\<close>, \<open>batched_ODESolve\<close>, \<open>y\<close> and \<open>y_prime\<close> are used by the code cells
  and are those the exercises ask the reader to define. \<open>default_rng\<close> is the generator held by the default
  argument of \<open>init_random_params\<close>, \<open>np_random\<close> the generator behind \<open>np.random.rand\<close>.
  The gradient operator \<open>grad\<close> of the automatic-differentiation library is a parameter
  of everything that uses it.
\<close>

type_synonym loss = "params \<Rightarrow> ndarray \<Rightarrow> ndarray \<Rightarrow> error + real"
type_synonym grad_op = "loss \<Rightarrow> params \<Rightarrow> ndarray \<Rightarrow> ndarray \<Rightarrow> error + params"
type_synonym vector_field = "ndarray \<Rightarrow> real \<Rightarrow> error + ndarray"

record globals =
  input :: "ndarray option"
  target :: "ndarray option"
  NODE_width :: "int list option"
  step_size :: "real option"
  train_iters :: "int option"
  NODE_theta :: "params option"
  loop_i :: "int option"
  new_inputs :: "ndarray option"
  NODE_L2loss :: "loss option"
  batched_ODESolve :: "(params \<Rightarrow> ndarray \<Rightarrow> error + ndarray) option"
  y_fn :: "(ndarray \<Rightarrow> error + ndarray) option"
  y_prime :: "(ndarray \<Rightarrow> error + ndarray) option"
  default_rng :: rng
  np_random :: rng

definition fresh :: "rng \<Rightarrow> rng \<Rightarrow> globals" where
  \<comment> \<open>the namespace before any cell has run\<close>
  "fresh r u =
     \<lparr>input = None, target = None, NODE_width = None, step_size = None, train_iters = None,
      NODE_theta = None, loop_i = None, new_inputs = None, NODE_L2loss = None,
      batched_ODESolve = None, y_fn = None, y_prime = None,
      default_rng = r, np_random = u\<rparr>"

section \<open>Gradient descent and the training loop\<close>

text \<open>
  \<^verbatim>\<open>
  def NODE_gd(theta, xs, ys):
      gradients = grad(NODE_L2loss)(theta, xs, ys)
      return [(w - step_size * dw, b - step_size * db)
              for (w, b), (dw, db) in zip(theta, gradients)]
  \<close>
  \<open>NODE_L2loss\<close> and \<open>step_size\<close> are globals, looked up when the expression that names
  them is evaluated; \<open>zip\<close> stops at the shorter list.
\<close>

fun gd_update :: "real option \<Rightarrow> params \<Rightarrow> params \<Rightarrow> error + params" where
  "gd_update s ((w, b) # theta) ((dw, db) # gradients) =
     (case s of
        None \<Rightarrow> Inl (NameError ''step_size'')
      | Some c \<Rightarrow>
          bind_err (sub w (smul c dw)) (\<lambda>w'.
          bind_err (sub b (smul c db)) (\<lambda>b'.
          bind_err (gd_update s theta gradients) (\<lambda>rest. Inr ((w', b') # rest)))))"
| "gd_update s _ _ = Inr []"

definition NODE_gd :: "grad_op \<Rightarrow> globals \<Rightarrow> params \<Rightarrow> ndarray \<Rightarrow> ndarray \<Rightarrow> error + params" where
  "NODE_gd grad g theta xs ys =
     (case NODE_L2loss g of
        None \<Rightarrow> Inl (NameError ''NODE_L2loss'')
      | Some L \<Rightarrow> bind_err (grad L theta xs ys) (gd_update (step_size g) theta))"

text \<open>
  \<^verbatim>\<open>
  for i in range(train_iters):
      NODE_theta = NODE_gd(NODE_theta, input, target)
  \<close>
\<close>

fun for_range :: "grad_op \<Rightarrow> int list \<Rightarrow> globals \<Rightarrow> error + globals" where
  "for_range grad [] g = Inr g"
| "for_range grad (k # ks) g =
     (let g1 = g\<lparr>loop_i := Some k\<rparr> in
      (case NODE_theta g1 of None \<Rightarrow> Inl (NameError ''NODE_theta'') | Some theta \<Rightarrow>
      (case input g1 of None \<Rightarrow> Inl (NameError ''input'') | Some xs \<Rightarrow>
      (case target g1 of None \<Rightarrow> Inl (NameError ''target'') | Some ys \<Rightarrow>
      (case NODE_gd grad g1 theta xs ys of
         Inl e \<Rightarrow> Inl e
       | Inr theta' \<Rightarrow> for_range grad ks (g1\<lparr>NODE_theta := Some theta'\<rparr>))))))"

definition training_loop :: "grad_op \<Rightarrow> globals \<Rightarrow> error + globals" where
  "training_loop grad g =
     (case train_iters g of
        None \<Rightarrow> Inl (NameError ''train_iters'')
      | Some n \<Rightarrow> for_range grad [0..n - 1] g)"

text \<open>\<open>n\<close> successive gradient-descent steps, each on the result of the one before.\<close>

fun iterate_gd :: "grad_op \<Rightarrow> globals \<Rightarrow> ndarray \<Rightarrow> ndarray \<Rightarrow> nat \<Rightarrow> params \<Rightarrow> error + params" where
  "iterate_gd grad g xs ys 0 theta = Inr theta"
| "iterate_gd grad g xs ys (Suc n) theta =
     bind_err (NODE_gd grad g theta xs ys) (iterate_gd grad g xs ys n)"

text \<open>
  One gradient-descent step on a parameter list, layer by layer: the weight \<open>w\<close> becomes
  \<open>w - c * dw\<close> and the bias \<open>b\<close> becomes \<open>b - c * db\<close>.
\<close>

definition descent_step :: "real \<Rightarrow> params \<Rightarrow> params \<Rightarrow> params \<Rightarrow> bool" where
  "descent_step c theta gradients theta' \<longleftrightarrow>
     length theta' = length theta
     \<and> (\<forall>k < length theta.
           sub (fst (theta ! k)) (smul c (fst (gradients ! k))) = Inr (fst (theta' ! k))
         \<and> sub (snd (theta ! k)) (smul c (snd (gradients ! k))) = Inr (snd (theta' ! k)))"

section \<open>The code cells\<close>

text \<open>
  Each code cell is a function on the namespace. Function definitions and imports always
  succeed and are not cells here; the plotting calls draw and bind only figure handles.
\<close>

definition jnp_linspace :: "real \<Rightarrow> real \<Rightarrow> nat \<Rightarrow> ndarray" where
  "jnp_linspace a b n =
     \<lparr>shape = [n], data = map (\<lambda>k. a + (b - a) * real k / real (n - 1)) [0..<n]\<rparr>"

definition jnp_reshape :: "ndarray \<Rightarrow> nat list \<Rightarrow> error + ndarray" where
  "jnp_reshape a s =
     (if prod_list s = prod_list (shape a) then Inr (a\<lparr>shape := s\<rparr>) else Inl ShapeError)"

definition power_arr :: "ndarray \<Rightarrow> nat \<Rightarrow> ndarray" where
  \<comment> \<open>\<open>a ** n\<close>\<close>
  "power_arr a n = a\<lparr>data := map (\<lambda>x. x ^ n) (data a)\<rparr>"

text \<open>
  \<^verbatim>\<open>
  input = jnp.reshape(jnp.linspace(-2.5, 2.5, 15), (15, 1))
  target = input**3 + 0.1 * input
  \<close>
\<close>

definition cell_data :: "globals \<Rightarrow> error + globals" where
  "cell_data g =
     bind_err (jnp_reshape (jnp_linspace (- 2.5) 2.5 15) [15, 1]) (\<lambda>xs.
     bind_err (add (power_arr xs 3) (smul 0.1 xs)) (\<lambda>t.
       Inr (g\<lparr>input := Some xs, target := Some t\<rparr>)))"

text \<open>
  \<^verbatim>\<open>
  NODE_width = [2, 20, 1] # layer sizes
  step_size = 0.0005 # size of training steps
  train_iters = 1000 # number of training steps

  NODE_theta = init_random_params(NODE_width)
  \<close>
\<close>

definition cell_hyper :: "platform \<Rightarrow> globals \<Rightarrow> error + globals" where
  "cell_hyper pf g =
     (let g1 = g\<lparr>NODE_width := Some [2, 20, 1], step_size := Some 0.0005,
                 train_iters := Some 1000\<rparr>
      in case init_random_params pf [2, 20, 1] (default_rng g1) of
           (Inl e, r) \<Rightarrow> Inl e
         | (Inr theta, r) \<Rightarrow> Inr (g1\<lparr>NODE_theta := Some theta, default_rng := r\<rparr>))"

definition cell_train :: "grad_op \<Rightarrow> globals \<Rightarrow> error + globals" where
  "cell_train grad g = training_loop grad g"

text \<open>
  \<^verbatim>\<open>
  fig = plt.figure(figsize=(6, 4), dpi=150)
  ax = fig.gca()
  ax.scatter(input, target, lw=0.5, color='red')
  new_inputs = jnp.reshape(jnp.linspace(-3.0, 3.0, 300), (300, 1))
  ax.plot(new_inputs, batched_ODESolve(NODE_theta, new_inputs), lw=0.5, color='green')
  ...
  \<close>
\<close>

definition cell_plot :: "globals \<Rightarrow> error + globals" where
  "cell_plot g =
     (case input g of None \<Rightarrow> Inl (NameError ''input'') | Some xs \<Rightarrow>
     (case target g of None \<Rightarrow> Inl (NameError ''target'') | Some ys \<Rightarrow>
      bind_err (jnp_reshape (jnp_linspace (- 3) 3 300) [300, 1]) (\<lambda>ni.
        let g1 = g\<lparr>new_inputs := Some ni\<rparr> in
        (case batched_ODESolve g1 of
           None \<Rightarrow> Inl (NameError ''batched_ODESolve'')
         | Some f \<Rightarrow>
            (case NODE_theta g1 of
               None \<Rightarrow> Inl (NameError ''NODE_theta'')
             | Some theta \<Rightarrow> bind_err (f theta ni) (\<lambda>out. Inr g1))))))"

text \<open>
  \<^verbatim>\<open>
  input = np.random.rand(200)*30
  target = np.array([y(input), y_prime(input)]).T
  \<close>
  \<open>np.array\<close> of two arrays stacks them along a new first axis and needs equal shapes;
  \<open>.T\<close> reverses the axes.
\<close>

definition np_array2 :: "ndarray \<Rightarrow> ndarray \<Rightarrow> error + ndarray" where
  "np_array2 a b =
     (if shape a = shape b then Inr \<lparr>shape = 2 # shape a, data = data a @ data b\<rparr>
      else Inl ValueError)"

fun unravel :: "nat list \<Rightarrow> nat \<Rightarrow> nat list" where
  "unravel [] k = []"
| "unravel (d # ds) k = (k div prod_list ds) # unravel ds (k mod prod_list ds)"

fun ravel :: "nat list \<Rightarrow> nat list \<Rightarrow> nat" where
  "ravel (d # ds) (j # js) = j * prod_list ds + ravel ds js"
| "ravel _ _ = 0"

definition transpose_arr :: "ndarray \<Rightarrow> ndarray" where
  "transpose_arr a =
     \<lparr>shape = rev (shape a),
      data = map (\<lambda>k. data a ! ravel (shape a) (rev (unravel (rev (shape a)) k)))
                 [0..<prod_list (shape a)]\<rparr>"

definition cell_target :: "globals \<Rightarrow> error + globals" where
  "cell_target g =
     (let (us, r) = draws 200 (np_random g);
          xs = \<lparr>shape = [200], data = map (\<lambda>u. u * 30) us\<rparr>;
          g1 = g\<lparr>input := Some xs, np_random := r\<rparr>
      in case y_fn g1 of
           None \<Rightarrow> Inl (NameError ''y'')
         | Some yf \<Rightarrow>
             bind_err (yf xs) (\<lambda>a.
               (case y_prime g1 of
                  None \<Rightarrow> Inl (NameError ''y_prime'')
                | Some ypf \<Rightarrow>
                    bind_err (ypf xs) (\<lambda>b.
                    bind_err (np_array2 a b) (\<lambda>st.
                      Inr (g1\<lparr>target := Some (transpose_arr st)\<rparr>))))))"

text \<open>
  The namespace the training, plotting and target cells meet when the notebook is run as
  given: the cells before them, in order.
\<close>

definition as_given :: "platform \<Rightarrow> rng \<Rightarrow> rng \<Rightarrow> error + globals" where
  "as_given pf r u = bind_err (cell_data (fresh r u)) (cell_hyper pf)"

section \<open>The ODE-solve step\<close>

text \<open>
  The notebook states the Euler step in its text and leaves the function \<open>ODESolve\<close> of
  Exercise 1 to the reader; no code cell defines or calls it. The definition below is
  therefore not a translation of code: it follows the specification, which describes the
  step as a single Euler integration step of three arithmetic operations,
  \<open>z + v(z, t0) \<cdot> (t1 - t0)\<close>. The vector field \<open>v\<close>, left to the reader as well
  (Exercise 0), is a parameter.
\<close>

definition ODESolve :: "ndarray \<Rightarrow> vector_field \<Rightarrow> real \<Rightarrow> real \<Rightarrow> error + ndarray" where
  \<comment> \<open>Modelled from the spec: the function \<open>ODESolve(z, v, t0, t1)\<close> of Exercise 1, which
      the source does not contain.\<close>
  "ODESolve z v t0 t1 = bind_err (v z t0) (\<lambda>dz. add z (smul (t1 - t0) dz))"

section \<open>Concrete inputs\<close>

text \<open>
  A one-unit layer with weight 1 and bias 0, the input 1, a generator that always delivers
  the same sample, a platform, the loss that is constantly 0 and its gradient, and a
  vector field.
\<close>

definition unit_weight :: ndarray where
  "unit_weight = \<lparr>shape = [1, 1], data = [1]\<rparr>"

definition zero_bias :: ndarray where
  "zero_bias = \<lparr>shape = [1], data = [0]\<rparr>"

definition one_input :: ndarray where
  "one_input = \<lparr>shape = [1], data = [1]\<rparr>"

definition const_rng :: "real \<Rightarrow> rng" where
  "const_rng c = (\<lambda>n. c)"

definition small_platform :: platform where
  \<comment> \<open>a platform that creates the arrays every platform creates, and no other\<close>
  "small_platform =
     Platform (\<lambda>s. if length s \<le> 2 \<and> (\<forall>d \<in> set s. d \<le> 1024) then None else Some MemoryError)"

definition zero_loss :: loss where
  "zero_loss theta xs ys = Inr 0"

definition zero_grad :: grad_op where
  "zero_grad L theta xs ys = Inr (map (\<lambda>(w, b). (smul 0 w, smul 0 b)) theta)"

definition identity_field :: vector_field where
  \<comment> \<open>the vector field of \<open>dz/dt = z\<close>\<close>
  "identity_field z t = Inr z"

definition example_globals :: globals where
  \<comment> \<open>a namespace in which Exercise 2 has been done, with the notebook's hyperparameters\<close>
  "example_globals =
     (fresh (const_rng 0) (const_rng 0))
       \<lparr>input := Some one_input, target := Some one_input, step_size := Some 0.0005,
        train_iters := Some 1000, NODE_theta := Some [(unit_weight, zero_bias)],
        NODE_L2loss := Some zero_loss\<rparr>"

section \<open>Properties of the array operations\<close>

lemma bshape_rev_Nil2: "bshape_rev xs [] = Some xs"
  by (cases xs) simp_all

lemma bshape_rev_same: "bshape_rev xs xs = Some xs"
  by (induction xs) simp_all

lemma broadcast_shapes_bias: "broadcast_shapes (ss @ [q]) [q] = Some (ss @ [q])"
  by (simp add: broadcast_shapes_def bshape_rev_Nil2)

lemma broadcast_shapes_same: "broadcast_shapes s s = Some s"
  by (simp add: broadcast_shapes_def bshape_rev_same)

lemma broadcast_op_error: "broadcast_op f a b = Inl e \<Longrightarrow> e = ShapeError"
  by (auto simp: broadcast_op_def split: option.splits)

lemma jnp_dot_error: "jnp_dot a b = Inl e \<Longrightarrow> e = ShapeError"
  by (auto simp: jnp_dot_def Let_def dest: broadcast_op_error split: if_splits)

lemma linear_error: "linear w b xs = Inl e \<Longrightarrow> e = ShapeError"
  by (auto simp: linear_def bind_err_def add_def dest: broadcast_op_error jnp_dot_error
           split: sum.splits)

lemma jnp_dot_matrix:
  assumes "shape w = [p, q]" and "shape xs \<noteq> []" and "last (shape xs) = p"
  shows "\<exists>d. jnp_dot xs w = Inr d \<and> shape d = butlast (shape xs) @ [q]"
  using assms by (simp add: jnp_dot_def Let_def)

lemma add_bias:
  assumes "shape d = ss @ [q]" and "shape b = [q]"
  shows "\<exists>out. add d b = Inr out \<and> shape out = ss @ [q]"
  using assms by (simp add: add_def broadcast_op_def broadcast_shapes_bias)

lemma linear_compatible:
  assumes "shape w = [p, q]" and "shape b = [q]" and "shape xs \<noteq> []" and "last (shape xs) = p"
  shows "\<exists>out. linear w b xs = Inr out \<and> shape out = butlast (shape xs) @ [q]"
proof -
  from jnp_dot_matrix [OF assms(1,3,4)] obtain d
    where d: "jnp_dot xs w = Inr d" "shape d = butlast (shape xs) @ [q]" by blast
  from add_bias [OF d(2) assms(2)] obtain out
    where "add d b = Inr out" "shape out = butlast (shape xs) @ [q]" by blast
  with d show ?thesis by (simp add: linear_def bind_err_def)
qed

lemma shape_jnp_tanh: "shape (jnp_tanh a) = shape a"
  by (simp add: jnp_tanh_def)

lemma shape_smul: "shape (smul c a) = shape a"
  by (simp add: smul_def)

lemma sub_same_shape:
  assumes "shape a = shape b"
  shows "\<exists>d. sub a b = Inr d \<and> shape d = shape a"
  using assms by (simp add: sub_def broadcast_op_def broadcast_shapes_same)

section \<open>The feedforward pass: what it returns\<close>

lemma fcn_loop_snoc:
  "fcn_loop (ths @ [(w, b)]) xs acc =
     bind_err (compose_layers ths xs) (\<lambda>h. bind_err (linear w b h) (\<lambda>out. Inr (Some out)))"
proof (induction ths arbitrary: xs acc)
  case Nil
  show ?case by (simp add: bind_err_def split: sum.splits)
next
  case (Cons l ths)
  obtain w' b' where l: "l = (w', b')" by (cases l)
  show ?case
    by (cases "linear w' b' xs") (simp_all add: l Cons.IH layer_step_def bind_err_def)
qed

lemma fcn_snoc: "fcn (ths @ [(w, b)]) xs = bind_err (compose_layers ths xs) (linear w b)"
  by (simp add: fcn_def fcn_loop_snoc bind_err_def split: sum.splits)

lemma fcn_last:
  assumes "theta \<noteq> []"
  shows "fcn theta xs =
           bind_err (compose_layers (butlast theta) xs) (linear (fst (last theta)) (snd (last theta)))"
proof -
  from assms have "theta = butlast theta @ [(fst (last theta), snd (last theta))]" by simp
  then show ?thesis using fcn_snoc by metis
qed

lemma compose_layers_error: "compose_layers ths xs = Inl e \<Longrightarrow> e = ShapeError"
proof (induction ths arbitrary: xs)
  case Nil
  then show ?case by simp
next
  case (Cons l ths)
  then show ?case
    by (auto simp: layer_step_def bind_err_def dest: linear_error split: sum.splits)
qed

lemma fcn_error:
  assumes "theta \<noteq> []" and "fcn theta xs = Inl e"
  shows "e = ShapeError"
  using assms(2) unfolding fcn_last [OF assms(1)]
  by (auto simp: bind_err_def dest: compose_layers_error linear_error split: sum.splits)

lemma compatible_snoc_ok:
  "compatible (ths @ [(w, b)]) (shape xs) \<Longrightarrow>
     \<exists>h out. compose_layers ths xs = Inr h \<and> linear w b h = Inr out"
proof (induction ths arbitrary: xs)
  case Nil
  then show ?case
    by (auto split: list.splits dest!: linear_compatible [where xs = xs and w = w and b = b, rotated 2])
next
  case (Cons l ths)
  obtain w' b' where l: "l = (w', b')" by (cases l)
  from Cons.prems obtain p q where
    s: "shape w' = [p, q]" "shape xs \<noteq> []" "last (shape xs) = p" "shape b' = [q]"
    and rest: "compatible (ths @ [(w, b)]) (butlast (shape xs) @ [q])"
    by (auto simp: l split: list.splits)
  from linear_compatible [OF s(1) s(4) s(2) s(3)] obtain out'
    where out': "linear w' b' xs = Inr out'" "shape out' = butlast (shape xs) @ [q]" by blast
  from rest out'(2) have "compatible (ths @ [(w, b)]) (shape (jnp_tanh out'))"
    by (simp add: shape_jnp_tanh)
  from Cons.IH [OF this] obtain h out
    where "compose_layers ths (jnp_tanh out') = Inr h" "linear w b h = Inr out" by blast
  with out' show ?case by (simp add: l layer_step_def bind_err_def)
qed

lemma fcn_compatible:
  assumes "theta \<noteq> []" and "compatible theta (shape xs)"
  shows "\<exists>h out. compose_layers (butlast theta) xs = Inr h
            \<and> linear (fst (last theta)) (snd (last theta)) h = Inr out
            \<and> fcn theta xs = Inr out"
proof -
  from assms(1) have eq: "theta = butlast theta @ [(fst (last theta), snd (last theta))]" by simp
  with assms(2) have "compatible (butlast theta @ [(fst (last theta), snd (last theta))]) (shape xs)"
    by simp
  from compatible_snoc_ok [OF this] obtain h out
    where "compose_layers (butlast theta) xs = Inr h"
      "linear (fst (last theta)) (snd (last theta)) h = Inr out" by blast
  then show ?thesis using fcn_last [OF assms(1), of xs] by (simp add: bind_err_def)
qed

lemma linear_unit:
  "linear unit_weight zero_bias \<lparr>shape = [Suc 0], data = [x]\<rparr>
     = Inr \<lparr>shape = [Suc 0], data = [x]\<rparr>"
  by (simp add: linear_def bind_err_def jnp_dot_def add_def broadcast_op_def
      broadcast_shapes_def broadcast_to_def unit_weight_def zero_bias_def)

lemma fcn_unit: "fcn [(unit_weight, zero_bias)] one_input = Inr one_input"
  by (simp add: fcn_def linear_unit one_input_def)

lemma compose_unit:
  "compose_layers [(unit_weight, zero_bias)] one_input = Inr \<lparr>shape = [1], data = [tanh 1]\<rparr>"
  by (simp add: layer_step_def linear_unit one_input_def bind_err_def jnp_tanh_def)

lemma compatible_unit: "compatible [(unit_weight, zero_bias)] (shape one_input)"
  by (simp add: unit_weight_def zero_bias_def one_input_def)

lemma compatible_two_units:
  "compatible [(unit_weight, zero_bias), (unit_weight, zero_bias)] (shape one_input)"
  by (simp add: unit_weight_def zero_bias_def one_input_def)

text \<open>
  C1, as stated: the result of \<open>fcn\<close> is the composition of the per-layer steps, each a
  linear transform followed by tanh. It is not: for the one-unit layer and the input 1 the
  composition gives \<open>tanh 1\<close>, and \<open>fcn\<close> returns 1, the output of the linear transform.
\<close>

theorem fcn_is_composition_counterexample:
  "fcn [(unit_weight, zero_bias)] one_input \<noteq> compose_layers [(unit_weight, zero_bias)] one_input"
proof -
  have "tanh (1::real) \<noteq> 1" using tanh_real_lt_1 [of 1] by simp
  then show ?thesis unfolding fcn_unit compose_unit by (simp add: one_input_def)
qed

text \<open>
  C1, amended: for every non-empty parameter list, \<open>fcn\<close> applies a linear transform
  followed by tanh for each layer but the last, in order, and returns the linear transform
  of the last layer applied to the result of that composition; the tanh of the last layer
  is not part of the result. An error of a library call is the result in its place, and
  on a shape-compatible input there is none.
\<close>

theorem fcn_layers_then_linear:
  assumes "theta \<noteq> []"
  shows "fcn theta xs = bind_err (compose_layers (butlast theta) xs)
                                 (linear (fst (last theta)) (snd (last theta)))
       \<and> (compatible theta (shape xs) \<longrightarrow>
            (\<exists>h out. compose_layers (butlast theta) xs = Inr h
                \<and> linear (fst (last theta)) (snd (last theta)) h = Inr out
                \<and> fcn theta xs = Inr out))"
  using fcn_last [OF assms] fcn_compatible [OF assms] by blast

theorem fcn_layers_then_linear_witness:
  "compose_layers (butlast [(unit_weight, zero_bias), (unit_weight, zero_bias)]) one_input
       = Inr \<lparr>shape = [1], data = [tanh 1]\<rparr>
   \<and> fcn [(unit_weight, zero_bias), (unit_weight, zero_bias)] one_input
       = Inr \<lparr>shape = [1], data = [tanh 1]\<rparr>"
proof -
  have ne: "[(unit_weight, zero_bias), (unit_weight, zero_bias)] \<noteq> []" by simp
  from fcn_layers_then_linear [OF ne, of one_input] compatible_two_units
  obtain h out where
    h: "compose_layers (butlast [(unit_weight, zero_bias), (unit_weight, zero_bias)]) one_input = Inr h"
    and out: "linear (fst (last [(unit_weight, zero_bias), (unit_weight, zero_bias)]))
                     (snd (last [(unit_weight, zero_bias), (unit_weight, zero_bias)])) h = Inr out"
    and f: "fcn [(unit_weight, zero_bias), (unit_weight, zero_bias)] one_input = Inr out"
    by blast
  from h have h': "h = \<lparr>shape = [1], data = [tanh 1]\<rparr>" using compose_unit by simp
  from out have "out = \<lparr>shape = [1], data = [tanh 1]\<rparr>" by (simp add: h' linear_unit)
  with h h' f show ?thesis by simp
qed

text \<open>
  C9: \<open>fcn\<close> on the empty parameter list never binds \<open>outputs\<close> and fails with the
  unbound-name error; on a non-empty list it returns the linear output of the last layer
  (computed on the result of the layers before it), it cannot fail with the unbound-name
  error, and on a shape-compatible input it returns a value.
\<close>

theorem fcn_unbound_outputs:
  "fcn [] xs = Inl (UnboundLocalError ''outputs'')
   \<and> (theta \<noteq> [] \<longrightarrow>
        fcn theta xs = bind_err (compose_layers (butlast theta) xs)
                                (linear (fst (last theta)) (snd (last theta)))
        \<and> fcn theta xs \<noteq> Inl (UnboundLocalError ''outputs'')
        \<and> (compatible theta (shape xs) \<longrightarrow> (\<exists>out. fcn theta xs = Inr out)))"
proof (intro conjI impI)
  show "fcn [] xs = Inl (UnboundLocalError ''outputs'')" by (simp add: fcn_def)
next
  assume "theta \<noteq> []"
  then show "fcn theta xs = bind_err (compose_layers (butlast theta) xs)
                                     (linear (fst (last theta)) (snd (last theta)))"
    by (rule fcn_last)
next
  assume "theta \<noteq> []"
  then show "fcn theta xs \<noteq> Inl (UnboundLocalError ''outputs'')"
    using fcn_error by blast
next
  assume "theta \<noteq> []" and "compatible theta (shape xs)"
  then show "\<exists>out. fcn theta xs = Inr out" using fcn_compatible by blast
qed

theorem fcn_unbound_outputs_witness:
  "[(unit_weight, zero_bias)] \<noteq> [] \<and> compatible [(unit_weight, zero_bias)] (shape one_input)
   \<and> fcn [] one_input = Inl (UnboundLocalError ''outputs'')
   \<and> fcn [(unit_weight, zero_bias)] one_input = Inr one_input
   \<and> fcn [(unit_weight, zero_bias)] one_input \<noteq> Inl (UnboundLocalError ''outputs'')"
  using fcn_unbound_outputs [of one_input "[(unit_weight, zero_bias)]"] compatible_unit fcn_unit
  by simp

section \<open>Random initialisation: the layout of the result\<close>

lemma refuses_small:
  assumes "length s \<le> 2" and "\<forall>d \<in> set s. d \<le> 1024"
  shows "refuses pf s = None"
  using refuses [of pf] assms by simp

lemma refuses_small_platform:
  "refuses small_platform s =
     (if length s \<le> 2 \<and> (\<forall>d \<in> set s. d \<le> 1024) then None else Some MemoryError)"
  by (simp add: small_platform_def Platform_inverse)

lemma randn_ok:
  assumes "\<forall>d \<in> set dims. 0 \<le> d" and "refuses pf (map nat dims) = None"
  shows "\<exists>a r'. randn pf dims r = (Inr a, r') \<and> shape a = map nat dims"
proof -
  from assms(1) have "\<not> (\<exists>d \<in> set dims. d < 0)" by force
  then show ?thesis using assms(2) by (simp add: randn_def Let_def draws_def)
qed


lemma init_random_params_Nil: "init_random_params pf [] r = (Inr [], r)"
  by (simp add: init_random_params_def)

lemma init_random_params_single: "init_random_params pf [n] r = (Inr [], r)"
  by (simp add: init_random_params_def)

lemma init_random_params_step:
  "init_random_params pf (p # q # N) r =
     (case randn pf [p, q] r of
        (Inl e, r1) \<Rightarrow> (Inl e, r1)
      | (Inr w, r1) \<Rightarrow>
          (case randn pf [q] r1 of
             (Inl e, r2) \<Rightarrow> (Inl e, r2)
           | (Inr b, r2) \<Rightarrow>
               (case init_random_params pf (q # N) r2 of
                  (Inl e, r3) \<Rightarrow> (Inl e, r3)
                | (Inr rest, r3) \<Rightarrow> (Inr ((w, b) # rest), r3))))"
proof -
  have "zip (butlast (p # q # N)) (tl (p # q # N)) = (p, q) # zip (butlast (q # N)) (tl (q # N))"
    by simp
  then show ?thesis by (simp only: init_random_params_def init_pairs.simps)
qed



lemma init_random_params_returns:
  "\<forall>n \<in> set N. 0 \<le> n \<Longrightarrow> creatable pf N \<Longrightarrow>
     \<exists>ps r'. init_random_params pf N r = (Inr ps, r')"
proof (induction N arbitrary: r rule: induct_list012)
  case 1
  show ?case by (simp add: init_random_params_Nil)
next
  case (2 n)
  show ?case by (simp add: init_random_params_single)
next
  case (3 p q N)
  from "3.prems"(1) have pq: "\<forall>d \<in> set [p, q]. 0 \<le> d" and q: "\<forall>d \<in> set [q]. 0 \<le> d"
    and nonneg: "\<forall>n \<in> set (q # N). 0 \<le> n" by simp_all
  from "3.prems"(2) have cw: "refuses pf (map nat [p, q]) = None"
    and cb: "refuses pf (map nat [q]) = None" and cr: "creatable pf (q # N)" by simp_all
  from randn_ok [OF pq cw] obtain w r1 where w: "randn pf [p, q] r = (Inr w, r1)" by blast
  from randn_ok [OF q cb] obtain b r2 where b: "randn pf [q] r1 = (Inr b, r2)" by blast
  from "3.IH"(2) [OF nonneg cr] obtain ps r3
    where "init_random_params pf (q # N) r2 = (Inr ps, r3)" by blast
  then have "init_random_params pf (p # q # N) r = (Inr ((w, b) # ps), r3)"
    by (simp add: init_random_params_step w b)
  then show ?case by blast
qed

lemma creatable_notebook: "creatable pf [2, 20, 1]"
  by (simp add: refuses_small)

lemma init_random_params_too_big:
  assumes "refuses pf [2, 2 ^ 63] = Some e"
  shows "init_random_params pf [2, 2 ^ 63] r = (Inl e, r)"
  using assms by (simp add: init_random_params_def randn_def nat_power_eq)




section \<open>Gradient descent: structure and iteration\<close>

lemma same_structure_refl: "same_structure ps ps"
  by (simp add: same_structure_def list_all2_refl)

lemma same_structure_trans:
  "same_structure ps qs \<Longrightarrow> same_structure qs rs \<Longrightarrow> same_structure ps rs"
  unfolding same_structure_def
  by (erule list_all2_trans [rotated]) auto

lemma same_structure_length: "same_structure ps qs \<Longrightarrow> length ps = length qs"
  by (simp add: same_structure_def list_all2_lengthD)

lemma same_structure_layout: "same_structure ps qs \<Longrightarrow> layout N ps \<Longrightarrow> layout N qs"
  by (auto simp: same_structure_def layout_def list_all2_conv_all_nth)

lemma same_structure_Cons:
  "same_structure (p # ps) (q # qs) \<longleftrightarrow>
     shape (fst p) = shape (fst q) \<and> shape (snd p) = shape (snd q) \<and> same_structure ps qs"
  by (simp add: same_structure_def)

lemma same_structure_Nil: "same_structure [] []"
  by (simp add: same_structure_def)

lemma gd_update_same_structure:
  "same_structure theta gradients \<Longrightarrow>
     \<exists>theta'. gd_update (Some c) theta gradients = Inr theta' \<and> same_structure theta theta'"
proof (induction theta arbitrary: gradients)
  case Nil
  then show ?case by (simp add: same_structure_Nil)
next
  case (Cons l theta)
  from Cons.prems obtain d gs where g: "gradients = d # gs"
    by (cases gradients) (auto simp: same_structure_def)
  obtain w b where l: "l = (w, b)" by (cases l)
  obtain dw db where d: "d = (dw, db)" by (cases d)
  from Cons.prems have sw: "shape w = shape (smul c dw)" and sb: "shape b = shape (smul c db)"
    and rest: "same_structure theta gs"
    by (simp_all add: g l d same_structure_Cons shape_smul)
  from sub_same_shape [OF sw] obtain w' where w': "sub w (smul c dw) = Inr w'" "shape w' = shape w"
    by blast
  from sub_same_shape [OF sb] obtain b' where b': "sub b (smul c db) = Inr b'" "shape b' = shape b"
    by blast
  from Cons.IH [OF rest] obtain th'
    where th': "gd_update (Some c) theta gs = Inr th'" "same_structure theta th'" by blast
  have "gd_update (Some c) (l # theta) gradients = Inr ((w', b') # th')"
    by (simp add: g l d w' b' th' bind_err_def)
  moreover have "same_structure (l # theta) ((w', b') # th')"
    by (simp add: l same_structure_Cons w' b' th')
  ultimately show ?case by blast
qed

lemma gd_update_pointwise:
  "gd_update (Some c) theta gradients = Inr theta' \<Longrightarrow>
     length theta' = min (length theta) (length gradients)
     \<and> (\<forall>k < length theta'.
           sub (fst (theta ! k)) (smul c (fst (gradients ! k))) = Inr (fst (theta' ! k))
         \<and> sub (snd (theta ! k)) (smul c (snd (gradients ! k))) = Inr (snd (theta' ! k)))"
proof (induction theta arbitrary: gradients theta')
  case Nil
  then show ?case by simp
next
  case (Cons l theta)
  show ?case
  proof (cases gradients)
    case Nil
    with Cons.prems show ?thesis by simp
  next
    case (Cons d gs)
    obtain w b where l: "l = (w, b)" by (cases l)
    obtain dw db where d: "d = (dw, db)" by (cases d)
    from Cons.prems obtain w' b' rest where
      w': "sub w (smul c dw) = Inr w'" and b': "sub b (smul c db) = Inr b'"
      and rest: "gd_update (Some c) theta gs = Inr rest" and t: "theta' = (w', b') # rest"
      by (auto simp: Cons l d bind_err_def split: sum.splits)
    from Cons.IH [OF rest] have ih:
      "length rest = min (length theta) (length gs)"
      "\<forall>k < length rest.
           sub (fst (theta ! k)) (smul c (fst (gs ! k))) = Inr (fst (rest ! k))
         \<and> sub (snd (theta ! k)) (smul c (snd (gs ! k))) = Inr (snd (rest ! k))"
      by simp_all
    show ?thesis
    proof (intro conjI allI impI)
      show "length theta' = min (length (l # theta)) (length gradients)"
        using ih(1) by (simp add: t Cons)
    next
      fix k assume "k < length theta'"
      then show "sub (fst ((l # theta) ! k)) (smul c (fst (gradients ! k))) = Inr (fst (theta' ! k))"
        using ih(2) w' by (cases k) (simp_all add: t Cons l d)
    next
      fix k assume "k < length theta'"
      then show "sub (snd ((l # theta) ! k)) (smul c (snd (gradients ! k))) = Inr (snd (theta' ! k))"
        using ih(2) b' by (cases k) (simp_all add: t Cons l d)
    qed
  qed
qed

lemma NODE_gd_bound:
  assumes "NODE_L2loss g = Some L" and "grad L theta xs ys = Inr gradients"
  shows "NODE_gd grad g theta xs ys = gd_update (step_size g) theta gradients"
  using assms by (simp add: NODE_gd_def bind_err_def)

lemma NODE_gd_unbound:
  assumes "NODE_L2loss g = None"
  shows "NODE_gd grad g theta xs ys = Inl (NameError ''NODE_L2loss'')"
  using assms by (simp add: NODE_gd_def)

lemma NODE_gd_names:
  assumes "NODE_L2loss g' = NODE_L2loss g" and "step_size g' = step_size g"
  shows "NODE_gd grad g' theta xs ys = NODE_gd grad g theta xs ys"
  by (simp add: NODE_gd_def assms split: option.splits)

lemma iterate_gd_names:
  assumes "NODE_L2loss g' = NODE_L2loss g" and "step_size g' = step_size g"
  shows "iterate_gd grad g' xs ys n = iterate_gd grad g xs ys n"
proof (induction n)
  case 0
  show ?case by (rule ext) simp
next
  case (Suc n)
  show ?case by (rule ext) (simp add: Suc NODE_gd_names [OF assms])
qed

lemma zero_grad_same_structure: "same_structure theta (map (\<lambda>(w, b). (smul 0 w, smul 0 b)) theta)"
  by (induction theta) (auto simp: same_structure_Nil same_structure_Cons shape_smul)

text \<open>
  C10: for every parameter list and every gradient list of matching structure, the list
  that \<open>NODE_gd\<close> returns has the length of the parameter list and, pair by pair, the
  shapes of its weights and biases; so a parameter list laid out as
  \<open>init_random_params\<close> lays it out for \<open>N\<close> is still laid out so after the step.
\<close>

theorem NODE_gd_preserves_structure:
  assumes "same_structure theta gradients"
    and "NODE_L2loss g = Some L" and "grad L theta xs ys = Inr gradients"
    and "step_size g = Some c"
  shows "\<exists>theta'. NODE_gd grad g theta xs ys = Inr theta'
           \<and> gd_update (Some c) theta gradients = Inr theta'
           \<and> length theta' = length theta
           \<and> same_structure theta theta'
           \<and> (layout N theta \<longrightarrow> layout N theta')"
proof -
  from gd_update_same_structure [OF assms(1)] obtain theta'
    where t: "gd_update (Some c) theta gradients = Inr theta'" "same_structure theta theta'"
    by blast
  have "NODE_gd grad g theta xs ys = Inr theta'"
    using assms(2,3,4) t(1) by (simp add: NODE_gd_def bind_err_def)
  moreover have "length theta' = length theta" using same_structure_length [OF t(2)] by simp
  moreover have "layout N theta \<longrightarrow> layout N theta'" using same_structure_layout [OF t(2)] by blast
  ultimately show ?thesis using t by blast
qed

theorem NODE_gd_preserves_structure_witness:
  "\<exists>theta'. NODE_gd zero_grad ((fresh (const_rng 0) (const_rng 0))
                 \<lparr>step_size := Some 0.0005, NODE_L2loss := Some zero_loss\<rparr>)
               [(unit_weight, zero_bias)] one_input one_input = Inr theta'
       \<and> length theta' = 1
       \<and> same_structure [(unit_weight, zero_bias)] theta'"
proof -
  let ?g = "(fresh (const_rng 0) (const_rng 0))\<lparr>step_size := Some 0.0005, NODE_L2loss := Some zero_loss\<rparr>"
  let ?theta = "[(unit_weight, zero_bias)]"
  let ?gradients = "map (\<lambda>(w, b). (smul 0 w, smul 0 b)) ?theta"
  have 1: "same_structure ?theta ?gradients" by (rule zero_grad_same_structure)
  have 2: "NODE_L2loss ?g = Some zero_loss" by simp
  have 3: "zero_grad zero_loss ?theta one_input one_input = Inr ?gradients"
    by (simp add: zero_grad_def)
  have 4: "step_size ?g = Some 0.0005" by simp
  from NODE_gd_preserves_structure
         [where grad = zero_grad and L = zero_loss and g = ?g and theta = ?theta
            and gradients = ?gradients and xs = one_input and ys = one_input
            and c = "0.0005" and N = "[]", OF 1 2 3 4]
  show ?thesis by auto
qed

section \<open>The training loop\<close>

lemma for_range_iterate:
  "input g = Some xs \<Longrightarrow> target g = Some ys \<Longrightarrow> NODE_theta g = Some theta \<Longrightarrow> ks \<noteq> [] \<Longrightarrow>
     for_range grad ks g =
       bind_err (iterate_gd grad g xs ys (length ks) theta)
                (\<lambda>theta'. Inr (g\<lparr>loop_i := Some (last ks), NODE_theta := Some theta'\<rparr>))"
proof (induction ks arbitrary: g theta rule: list.induct)
  case Nil
  then show ?case by simp
next
  case (Cons k ks)
  note inp = Cons.prems(1) and tgt = Cons.prems(2) and th = Cons.prems(3)
  let ?g1 = "g\<lparr>loop_i := Some k\<rparr>"
  have step: "NODE_gd grad ?g1 theta xs ys = NODE_gd grad g theta xs ys"
    by (rule NODE_gd_names) simp_all
  show ?case
  proof (cases "NODE_gd grad g theta xs ys")
    case (Inl e)
    then show ?thesis using inp tgt th step by (simp add: bind_err_def)
  next
    case (Inr theta1)
    let ?g2 = "?g1\<lparr>NODE_theta := Some theta1\<rparr>"
    have unfold: "for_range grad (k # ks) g = for_range grad ks ?g2"
      using inp tgt th step Inr by simp
    show ?thesis
    proof (cases "ks = []")
      case True
      then show ?thesis using unfold Inr by (simp add: bind_err_def)
    next
      case False
      have names: "iterate_gd grad ?g2 xs ys (length ks) = iterate_gd grad g xs ys (length ks)"
        by (rule iterate_gd_names) simp_all
      have "for_range grad ks ?g2 =
              bind_err (iterate_gd grad ?g2 xs ys (length ks) theta1)
                (\<lambda>theta'. Inr (?g2\<lparr>loop_i := Some (last ks), NODE_theta := Some theta'\<rparr>))"
        using inp tgt False by (intro Cons.IH) simp_all
      then show ?thesis using unfold Inr False by (simp add: names bind_err_def)
    qed
  qed
qed


lemma training_loop_iterate:
  assumes "train_iters g = Some n" and "0 < n"
    and "NODE_theta g = Some theta" and "input g = Some xs" and "target g = Some ys"
  shows "training_loop grad g =
           bind_err (iterate_gd grad g xs ys (nat n) theta)
                    (\<lambda>theta'. Inr (g\<lparr>loop_i := Some (n - 1), NODE_theta := Some theta'\<rparr>))"
proof -
  from assms(2) have ne: "[0..n - 1] \<noteq> []" by simp
  from assms(2) have len: "length [0..n - 1] = nat n" by simp
  from assms(2) have "[0..n - 1] = [0..n - 1 - 1] @ [n - 1]" by (intro upto_rec2) simp
  then have lst: "last [0..n - 1] = n - 1" by (metis last_snoc)
  show ?thesis
    using for_range_iterate [OF assms(4,5,3) ne, of grad] assms(1)
    by (simp add: training_loop_def len lst)
qed

lemma training_loop_unbound:
  assumes "train_iters g = Some n" and "0 < n"
    and "NODE_theta g = Some theta" and "input g = Some xs" and "target g = Some ys"
    and "NODE_L2loss g = None"
  shows "training_loop grad g = Inl (NameError ''NODE_L2loss'')"
proof -
  from assms(2) obtain m where m: "nat n = Suc m" by (cases "nat n") simp_all
  show ?thesis
    unfolding training_loop_iterate [OF assms(1-5)] m
    by (simp add: NODE_gd_unbound [OF assms(6)] bind_err_def)
qed

lemma iterate_gd_Suc_right:
  "iterate_gd grad g xs ys (Suc n) theta =
     bind_err (iterate_gd grad g xs ys n theta) (\<lambda>th. NODE_gd grad g th xs ys)"
proof (induction n arbitrary: theta)
  case 0
  show ?case by (simp add: bind_err_def split: sum.splits)
next
  case (Suc n)
  have "iterate_gd grad g xs ys (Suc (Suc n)) theta =
          bind_err (NODE_gd grad g theta xs ys) (iterate_gd grad g xs ys (Suc n))"
    by simp
  also have "\<dots> = bind_err (NODE_gd grad g theta xs ys)
                     (\<lambda>t. bind_err (iterate_gd grad g xs ys n t) (\<lambda>th. NODE_gd grad g th xs ys))"
    using Suc.IH by (simp add: bind_err_def split: sum.splits)
  also have "\<dots> = bind_err (iterate_gd grad g xs ys (Suc n) theta) (\<lambda>th. NODE_gd grad g th xs ys)"
    by (simp add: bind_err_def split: sum.splits)
  finally show ?case .
qed

lemma NODE_gd_step:
  assumes L: "NODE_L2loss g = Some L" and c: "step_size g = Some c"
    and gs: "grad L theta xs ys = Inr gradients" and st: "same_structure theta gradients"
  shows "\<exists>theta'. NODE_gd grad g theta xs ys = Inr theta' \<and> same_structure theta theta'
           \<and> descent_step c theta gradients theta'"
proof -
  from gd_update_same_structure [OF st] obtain theta'
    where t: "gd_update (Some c) theta gradients = Inr theta'" "same_structure theta theta'"
    by blast
  have "NODE_gd grad g theta xs ys = Inr theta'"
    using L c gs t(1) by (simp add: NODE_gd_def bind_err_def)
  moreover have "descent_step c theta gradients theta'"
    using gd_update_pointwise [OF t(1)] same_structure_length [OF t(2)]
    by (simp add: descent_step_def)
  ultimately show ?thesis using t(2) by blast
qed

lemma iterate_gd_ok:
  assumes L: "NODE_L2loss g = Some L" and c: "step_size g = Some c"
    and grad_ok: "\<forall>th. same_structure theta0 th \<longrightarrow>
                    (\<exists>gs. grad L th xs ys = Inr gs \<and> same_structure th gs)"
  shows "\<exists>theta'. iterate_gd grad g xs ys n theta0 = Inr theta' \<and> same_structure theta0 theta'"
proof (induction n)
  case 0
  show ?case by (simp add: same_structure_refl)
next
  case (Suc n)
  then obtain th where th: "iterate_gd grad g xs ys n theta0 = Inr th" "same_structure theta0 th"
    by blast
  from grad_ok th(2) obtain gs where gs: "grad L th xs ys = Inr gs" "same_structure th gs"
    by blast
  from NODE_gd_step [where grad = grad, OF L c gs] obtain th'
    where th': "NODE_gd grad g th xs ys = Inr th'" "same_structure th th'" by blast
  have "iterate_gd grad g xs ys (Suc n) theta0 = Inr th'"
    unfolding iterate_gd_Suc_right by (simp add: th(1) th'(1) bind_err_def)
  moreover have "same_structure theta0 th'" by (rule same_structure_trans [OF th(2) th'(2)])
  ultimately show ?case by blast
qed

lemma training_loop_ok:
  assumes "train_iters g = Some n" and "0 < n"
    and "NODE_theta g = Some theta0" and "input g = Some xs" and "target g = Some ys"
    and L: "NODE_L2loss g = Some L" and c: "step_size g = Some c"
    and grad_ok: "\<forall>th. same_structure theta0 th \<longrightarrow>
                    (\<exists>gs. grad L th xs ys = Inr gs \<and> same_structure th gs)"
  shows "\<exists>theta'. training_loop grad g = Inr (g\<lparr>loop_i := Some (n - 1), NODE_theta := Some theta'\<rparr>)
           \<and> iterate_gd grad g xs ys (nat n) theta0 = Inr theta'
           \<and> same_structure theta0 theta'
           \<and> (\<forall>k < nat n. \<exists>th gs th'.
                  iterate_gd grad g xs ys k theta0 = Inr th
                \<and> grad L th xs ys = Inr gs
                \<and> NODE_gd grad g th xs ys = Inr th'
                \<and> iterate_gd grad g xs ys (Suc k) theta0 = Inr th'
                \<and> descent_step c th gs th')"
proof -
  from iterate_gd_ok [where grad = grad, OF L c grad_ok] obtain theta'
    where t: "iterate_gd grad g xs ys (nat n) theta0 = Inr theta'" "same_structure theta0 theta'"
    by blast
  have loop: "training_loop grad g = Inr (g\<lparr>loop_i := Some (n - 1), NODE_theta := Some theta'\<rparr>)"
    unfolding training_loop_iterate [OF assms(1-5)] by (simp add: t(1) bind_err_def)
  have steps: "\<exists>th gs th'.
                  iterate_gd grad g xs ys k theta0 = Inr th
                \<and> grad L th xs ys = Inr gs
                \<and> NODE_gd grad g th xs ys = Inr th'
                \<and> iterate_gd grad g xs ys (Suc k) theta0 = Inr th'
                \<and> descent_step c th gs th'" for k
  proof -
    from iterate_gd_ok [where grad = grad, OF L c grad_ok] obtain th
      where th: "iterate_gd grad g xs ys k theta0 = Inr th" "same_structure theta0 th" by blast
    from grad_ok th(2) obtain gs where gs: "grad L th xs ys = Inr gs" "same_structure th gs"
      by blast
    from NODE_gd_step [where grad = grad, OF L c gs] obtain th'
      where th': "NODE_gd grad g th xs ys = Inr th'" "descent_step c th gs th'" by blast
    have "iterate_gd grad g xs ys (Suc k) theta0 = Inr th'"
      unfolding iterate_gd_Suc_right by (simp add: th(1) th'(1) bind_err_def)
    with th(1) gs(1) th' show ?thesis by blast
  qed
  from loop t steps show ?thesis by blast
qed

section \<open>The notebook as given\<close>

lemma add_same_shape:
  assumes "shape a = shape b"
  shows "\<exists>d. add a b = Inr d \<and> shape d = shape a"
  using assms by (simp add: add_def broadcast_op_def broadcast_shapes_same)

lemma shape_jnp_linspace: "shape (jnp_linspace a b n) = [n]"
  by (simp add: jnp_linspace_def)

lemma jnp_reshape_ok:
  assumes "prod_list s = prod_list (shape a)"
  shows "jnp_reshape a s = Inr (a\<lparr>shape := s\<rparr>)"
  using assms by (simp add: jnp_reshape_def)

lemma cell_data_ok: "\<exists>xs t. cell_data g = Inr (g\<lparr>input := Some xs, target := Some t\<rparr>)"
proof -
  let ?xs = "(jnp_linspace (- 2.5) 2.5 15)\<lparr>shape := [15, 1]\<rparr>"
  have r: "jnp_reshape (jnp_linspace (- 2.5) 2.5 15) [15, 1] = Inr ?xs"
    by (rule jnp_reshape_ok) (simp add: shape_jnp_linspace)
  have "shape (power_arr ?xs 3) = shape (smul 0.1 ?xs)"
    by (simp add: power_arr_def smul_def)
  from add_same_shape [OF this] obtain t where "add (power_arr ?xs 3) (smul 0.1 ?xs) = Inr t"
    by blast
  then have "cell_data g = Inr (g\<lparr>input := Some ?xs, target := Some t\<rparr>)"
    unfolding cell_data_def r bind_err_def by simp
  then show ?thesis by blast
qed

lemma cell_hyper_ok:
  "\<exists>theta r'. cell_hyper pf g =
      Inr (g\<lparr>NODE_width := Some [2, 20, 1], step_size := Some 0.0005, train_iters := Some 1000,
             NODE_theta := Some theta, default_rng := r'\<rparr>)"
proof -
  have "\<forall>n \<in> set [2, 20, 1 :: int]. 0 \<le> n" by simp
  from init_random_params_returns [OF this creatable_notebook, of pf "default_rng g"] obtain ps r'
    where "init_random_params pf [2, 20, 1] (default_rng g) = (Inr ps, r')" by blast
  then have "cell_hyper pf g =
      Inr (g\<lparr>NODE_width := Some [2, 20, 1], step_size := Some 0.0005, train_iters := Some 1000,
             NODE_theta := Some ps, default_rng := r'\<rparr>)"
    unfolding cell_hyper_def Let_def by simp
  then show ?thesis by blast
qed

lemma as_given_ok:
  "\<exists>g xs ys theta. as_given pf r u = Inr g
     \<and> input g = Some xs \<and> target g = Some ys \<and> NODE_theta g = Some theta
     \<and> train_iters g = Some 1000 \<and> step_size g = Some 0.0005
     \<and> NODE_L2loss g = None \<and> batched_ODESolve g = None
     \<and> y_fn g = None \<and> y_prime g = None"
proof -
  from cell_data_ok [of "fresh r u"] obtain xs t
    where d: "cell_data (fresh r u) = Inr ((fresh r u)\<lparr>input := Some xs, target := Some t\<rparr>)"
    by blast
  from cell_hyper_ok [of pf "(fresh r u)\<lparr>input := Some xs, target := Some t\<rparr>"] obtain theta r'
    where h: "cell_hyper pf ((fresh r u)\<lparr>input := Some xs, target := Some t\<rparr>) =
      Inr ((fresh r u)\<lparr>input := Some xs, target := Some t, NODE_width := Some [2, 20, 1],
             step_size := Some 0.0005, train_iters := Some 1000,
             NODE_theta := Some theta, default_rng := r'\<rparr>)"
    by auto
  let ?g = "(fresh r u)\<lparr>input := Some xs, target := Some t, NODE_width := Some [2, 20, 1],
             step_size := Some 0.0005, train_iters := Some 1000,
             NODE_theta := Some theta, default_rng := r'\<rparr>"
  have "as_given pf r u = Inr ?g" by (simp add: as_given_def d h bind_err_def)
  moreover have "input ?g = Some xs" "target ?g = Some t" "NODE_theta ?g = Some theta"
    "train_iters ?g = Some 1000" "step_size ?g = Some 0.0005"
    "NODE_L2loss ?g = None" "batched_ODESolve ?g = None"
    "y_fn ?g = None" "y_prime ?g = None"
    by (simp_all add: fresh_def)
  ultimately show ?thesis by blast
qed

lemma cell_plot_unbound:
  assumes "input g = Some xs" and "target g = Some ys" and "batched_ODESolve g = None"
  shows "cell_plot g = Inl (NameError ''batched_ODESolve'')"
proof -
  have "jnp_reshape (jnp_linspace (- 3) 3 300) [300, 1]
          = Inr ((jnp_linspace (- 3) 3 300)\<lparr>shape := [300, 1]\<rparr>)"
    by (rule jnp_reshape_ok) (simp add: shape_jnp_linspace)
  then show ?thesis using assms unfolding cell_plot_def bind_err_def Let_def by simp
qed

lemma cell_target_unbound_y:
  assumes "y_fn g = None"
  shows "cell_target g = Inl (NameError ''y'')"
proof -
  obtain us r where "draws 200 (np_random g) = (us, r)" by (cases "draws 200 (np_random g)")
  then show ?thesis using assms by (simp add: cell_target_def)
qed

lemma cell_target_unbound_y_prime:
  assumes "y_fn g = Some yf" and "\<And>a. \<exists>b. yf a = Inr b" and "y_prime g = None"
  shows "cell_target g = Inl (NameError ''y_prime'')"
proof -
  obtain us r where d: "draws 200 (np_random g) = (us, r)" by (cases "draws 200 (np_random g)")
  from assms(2) obtain b where "yf \<lparr>shape = [200], data = map (\<lambda>u. u * 30) us\<rparr> = Inr b"
    by blast
  then show ?thesis using d assms(1,3) by (simp add: cell_target_def bind_err_def)
qed

lemma zero_grad_ok:
  "\<forall>th. same_structure theta0 th \<longrightarrow>
     (\<exists>gs. zero_grad zero_loss th xs ys = Inr gs \<and> same_structure th gs)"
  by (simp add: zero_grad_def zero_grad_same_structure)

text \<open>
  C2, as stated: the training loop runs its 1000 iterations. In the notebook as given it
  does not complete the first: \<open>NODE_gd\<close> names \<open>NODE_L2loss\<close>, which no cell defines.
\<close>

theorem training_loop_as_given_counterexample:
  "bind_err (as_given small_platform (const_rng 0) (const_rng 0)) (cell_train zero_grad)
     = Inl (NameError ''NODE_L2loss'')"
proof -
  from as_given_ok [of small_platform "const_rng 0" "const_rng 0"] obtain g xs ys theta
    where g: "as_given small_platform (const_rng 0) (const_rng 0) = Inr g"
      "input g = Some xs" "target g = Some ys" "NODE_theta g = Some theta"
      "train_iters g = Some 1000" "NODE_L2loss g = None"
    by blast
  have "training_loop zero_grad g = Inl (NameError ''NODE_L2loss'')"
    by (rule training_loop_unbound [OF g(5) _ g(4) g(2) g(3) g(6)]) simp
  then show ?thesis by (simp add: g(1) bind_err_def cell_train_def)
qed

text \<open>
  C2, amended: once \<open>NODE_L2loss\<close> is defined and the gradient operator returns, for every
  parameter list of the structure of \<open>NODE_theta\<close>, a gradient of that structure, the
  training loop runs exactly \<open>train_iters\<close> iterations (1000 in the notebook): its result
  is \<open>train_iters\<close> successive applications of \<open>NODE_gd\<close>, each to the result of the one
  before; each application replaces, for every layer, the weight \<open>w\<close> by
  \<open>w - step_size * dw\<close> and the bias \<open>b\<close> by \<open>b - step_size * db\<close>, where \<open>(dw, db)\<close> is
  the gradient of \<open>NODE_L2loss\<close> for that layer; and of the namespace the loop changes
  only \<open>NODE_theta\<close> and its loop variable.
\<close>

theorem training_loop_gradient_descent:
  assumes "train_iters g = Some n" and "0 < n"
    and "NODE_theta g = Some theta0" and "input g = Some xs" and "target g = Some ys"
    and "NODE_L2loss g = Some L" and "step_size g = Some c"
    and "\<forall>th. same_structure theta0 th \<longrightarrow>
                    (\<exists>gs. grad L th xs ys = Inr gs \<and> same_structure th gs)"
  shows "\<exists>theta'. training_loop grad g = Inr (g\<lparr>loop_i := Some (n - 1), NODE_theta := Some theta'\<rparr>)
           \<and> iterate_gd grad g xs ys (nat n) theta0 = Inr theta'
           \<and> same_structure theta0 theta'
           \<and> (\<forall>k < nat n. \<exists>th gs th'.
                  iterate_gd grad g xs ys k theta0 = Inr th
                \<and> grad L th xs ys = Inr gs
                \<and> NODE_gd grad g th xs ys = Inr th'
                \<and> iterate_gd grad g xs ys (Suc k) theta0 = Inr th'
                \<and> descent_step c th gs th')"
  using training_loop_ok [where grad = grad, OF assms] .

theorem training_loop_gradient_descent_witness:
  "\<exists>theta'. training_loop zero_grad example_globals
               = Inr (example_globals\<lparr>loop_i := Some 999, NODE_theta := Some theta'\<rparr>)
       \<and> iterate_gd zero_grad example_globals one_input one_input 1000
             [(unit_weight, zero_bias)] = Inr theta'
       \<and> same_structure [(unit_weight, zero_bias)] theta'"
proof -
  have 1: "train_iters example_globals = Some 1000" by (simp add: example_globals_def)
  have 2: "(0::int) < 1000" by simp
  have 3: "NODE_theta example_globals = Some [(unit_weight, zero_bias)]"
    by (simp add: example_globals_def)
  have 4: "input example_globals = Some one_input" by (simp add: example_globals_def)
  have 5: "target example_globals = Some one_input" by (simp add: example_globals_def)
  have 6: "NODE_L2loss example_globals = Some zero_loss" by (simp add: example_globals_def)
  have 7: "step_size example_globals = Some 0.0005" by (simp add: example_globals_def)
  from training_loop_gradient_descent [where grad = zero_grad, OF 1 2 3 4 5 6 7 zero_grad_ok]
  show ?thesis by auto
qed

text \<open>
  C8: in the notebook as given the names \<open>NODE_L2loss\<close>, \<open>batched_ODESolve\<close>, \<open>y\<close> and
  \<open>y_prime\<close> are unbound, and evaluating the gradient-descent step, the training loop,
  the plotting cell or the target-data cell fails with the unresolved-name error for the
  first of them it meets; the target-data cell fails on \<open>y_prime\<close> once \<open>y\<close> alone is
  defined.
\<close>

theorem exercise_names_unbound:
  "\<exists>g. as_given pf r u = Inr g
     \<and> NODE_L2loss g = None \<and> batched_ODESolve g = None \<and> y_fn g = None \<and> y_prime g = None
     \<and> NODE_gd grad g theta xs ys = Inl (NameError ''NODE_L2loss'')
     \<and> cell_train grad g = Inl (NameError ''NODE_L2loss'')
     \<and> cell_plot g = Inl (NameError ''batched_ODESolve'')
     \<and> cell_target g = Inl (NameError ''y'')
     \<and> cell_target (g\<lparr>y_fn := Some (\<lambda>t. Inr t)\<rparr>) = Inl (NameError ''y_prime'')"
proof -
  from as_given_ok [of pf r u] obtain g xs' ys' theta'
    where g: "as_given pf r u = Inr g"
      "input g = Some xs'" "target g = Some ys'" "NODE_theta g = Some theta'"
      "train_iters g = Some 1000" "NODE_L2loss g = None" "batched_ODESolve g = None"
      "y_fn g = None" "y_prime g = None"
    by blast
  have "NODE_gd grad g theta xs ys = Inl (NameError ''NODE_L2loss'')"
    by (rule NODE_gd_unbound [OF g(6)])
  moreover have "cell_train grad g = Inl (NameError ''NODE_L2loss'')"
    unfolding cell_train_def
    by (rule training_loop_unbound [OF g(5) _ g(4) g(2) g(3) g(6)]) simp
  moreover have "cell_plot g = Inl (NameError ''batched_ODESolve'')"
    by (rule cell_plot_unbound [OF g(2) g(3) g(7)])
  moreover have "cell_target g = Inl (NameError ''y'')"
    by (rule cell_target_unbound_y [OF g(8)])
  moreover have "cell_target (g\<lparr>y_fn := Some (\<lambda>t. Inr t)\<rparr>) = Inl (NameError ''y_prime'')"
    by (rule cell_target_unbound_y_prime [where yf = "\<lambda>t. Inr t"]) (simp_all add: g(9))
  ultimately show ?thesis using g(1,6,7,8,9) by blast
qed

section \<open>The ODE-solve step: a single Euler step\<close>

lemma concat_blocks:
  "length xs = d * k \<Longrightarrow> concat (map (\<lambda>i. take k (drop (i * k) xs)) [0..<d]) = xs"
proof (induction d arbitrary: xs)
  case 0
  then show ?case by simp
next
  case (Suc d)
  have upt: "[0..<Suc d] = 0 # map Suc [0..<d]"
    by (simp add: upt_conv_Cons map_Suc_upt del: upt_Suc)
  have len: "length (drop k xs) = d * k" using Suc.prems by simp
  have "concat (map (\<lambda>i. take k (drop (i * k) xs)) [0..<Suc d])
          = take k xs @ concat (map (\<lambda>i. take k (drop (i * k) (drop k xs))) [0..<d])"
    unfolding upt by (simp add: comp_def add.commute)
  also have "\<dots> = take k xs @ drop k xs" by (simp only: Suc.IH [OF len])
  finally show ?case by simp
qed

lemma bcast_same: "length xs = prod_list s \<Longrightarrow> bcast s s xs = xs"
proof (induction s arbitrary: xs)
  case Nil
  show ?case by simp
next
  case (Cons d ds)
  let ?k = "prod_list ds"
  from Cons.prems have len: "length xs = d * ?k" by simp
  have block: "bcast ds ds (take ?k (drop (i * ?k) xs)) = take ?k (drop (i * ?k) xs)"
    if "i \<in> set [0..<d]" for i
  proof -
    from that have "Suc i \<le> d" by simp
    then have "Suc i * ?k \<le> d * ?k" by (rule mult_le_mono1)
    then have "i * ?k + ?k \<le> length xs" by (simp add: len add.commute)
    then have "length (take ?k (drop (i * ?k) xs)) = ?k" by simp
    then show ?thesis by (rule Cons.IH)
  qed
  have "bcast (d # ds) (d # ds) xs
          = concat (map (\<lambda>i. bcast ds ds (take ?k (drop (i * ?k) xs))) [0..<d])"
    by (simp add: Let_def)
  also have "\<dots> = concat (map (\<lambda>i. take ?k (drop (i * ?k) xs)) [0..<d])"
  proof -
    have "map (\<lambda>i. bcast ds ds (take ?k (drop (i * ?k) xs))) [0..<d]
            = map (\<lambda>i. take ?k (drop (i * ?k) xs)) [0..<d]"
      by (rule map_cong [OF refl]) (rule block)
    then show ?thesis by (simp only:)
  qed
  also have "\<dots> = xs" by (rule concat_blocks [OF len])
  finally show ?case .
qed

lemma broadcast_to_same: "well_formed a \<Longrightarrow> broadcast_to (shape a) a = data a"
  by (simp add: broadcast_to_def well_formed_def bcast_same)

lemma add_pointwise:
  assumes "shape b = shape a" and "well_formed a" and "well_formed b"
  shows "add a b = Inr \<lparr>shape = shape a, data = map2 (+) (data a) (data b)\<rparr>"
proof -
  from assms(1,3) have "broadcast_to (shape a) b = data b"
    using broadcast_to_same [of b] by simp
  then show ?thesis
    using assms(1) broadcast_to_same [OF assms(2)]
    by (simp add: add_def broadcast_op_def broadcast_shapes_same)
qed

lemma well_formed_smul: "well_formed (smul c a) = well_formed a"
  by (simp add: well_formed_def smul_def)

text \<open>
  C5: the ODE-solve step is a single Euler step. For every state \<open>z\<close> and times \<open>t0\<close>,
  \<open>t1\<close> it returns, entry by entry, \<open>z + v(z, t0) \<cdot> (t1 - t0)\<close>, where \<open>v(z, t0)\<close> has
  the shape of \<open>z\<close>; the step is the difference of the two times as given, and the vector
  field enters the result by its value at \<open>(z, t0)\<close> alone, so nothing is re-evaluated to
  adapt the step or to estimate an error, and a failure of the field is the result.
\<close>

theorem ODESolve_single_euler_step:
  "(v z t0 = Inr dz \<and> shape dz = shape z \<and> well_formed z \<and> well_formed dz \<longrightarrow>
      ODESolve z v t0 t1 =
        Inr \<lparr>shape = shape z, data = map2 (\<lambda>x d. x + d * (t1 - t0)) (data z) (data dz)\<rparr>)
   \<and> (\<forall>v'. v' z t0 = v z t0 \<longrightarrow> ODESolve z v' t0 t1 = ODESolve z v t0 t1)
   \<and> (\<forall>e. v z t0 = Inl e \<longrightarrow> ODESolve z v t0 t1 = Inl e)"
proof (intro conjI allI impI)
  assume a: "v z t0 = Inr dz \<and> shape dz = shape z \<and> well_formed z \<and> well_formed dz"
  then have "add z (smul (t1 - t0) dz)
               = Inr \<lparr>shape = shape z, data = map2 (+) (data z) (data (smul (t1 - t0) dz))\<rparr>"
    by (intro add_pointwise) (simp_all add: shape_smul well_formed_smul)
  moreover have "map2 (+) (data z) (data (smul (t1 - t0) dz))
                   = map2 (\<lambda>x d. x + d * (t1 - t0)) (data z) (data dz)"
    by (simp add: smul_def zip_map2 split_def mult.commute)
  ultimately show "ODESolve z v t0 t1 =
        Inr \<lparr>shape = shape z, data = map2 (\<lambda>x d. x + d * (t1 - t0)) (data z) (data dz)\<rparr>"
    using a by (simp add: ODESolve_def bind_err_def)
next
  fix v' :: vector_field
  assume "v' z t0 = v z t0"
  then show "ODESolve z v' t0 t1 = ODESolve z v t0 t1" by (simp add: ODESolve_def)
next
  fix e
  assume "v z t0 = Inl e"
  then show "ODESolve z v t0 t1 = Inl e" by (simp add: ODESolve_def bind_err_def)
qed

theorem ODESolve_single_euler_step_witness:
  "ODESolve one_input identity_field 0 1 = Inr \<lparr>shape = [1], data = [2]\<rparr>
   \<and> ODESolve \<lparr>shape = [2], data = [1, 3]\<rparr> (\<lambda>z t. Inr \<lparr>shape = [2], data = [10, 20]\<rparr>) 0 (1 / 2)
       = Inr \<lparr>shape = [2], data = [6, 13]\<rparr>"
proof -
  have 1: "identity_field one_input 0 = Inr one_input \<and> shape one_input = shape one_input
         \<and> well_formed one_input \<and> well_formed one_input"
    by (simp add: identity_field_def well_formed_def one_input_def)
  let ?z = "\<lparr>shape = [2], data = [1, 3]\<rparr>" and ?dz = "\<lparr>shape = [2], data = [10, 20]\<rparr>"
  have 2: "(\<lambda>z t. Inr ?dz) ?z 0 = Inr ?dz \<and> shape ?dz = shape ?z \<and> well_formed ?z \<and> well_formed ?dz"
    by (simp add: well_formed_def)
  from ODESolve_single_euler_step [of identity_field one_input 0 one_input 1] 1
  have "ODESolve one_input identity_field 0 1 = Inr \<lparr>shape = [1], data = [2]\<rparr>"
    by (simp add: one_input_def)
  moreover from ODESolve_single_euler_step [of "\<lambda>z t. Inr ?dz" ?z 0 ?dz "1 / 2"] 2
  have "ODESolve ?z (\<lambda>z t. Inr ?dz) 0 (1 / 2) = Inr \<lparr>shape = [2], data = [6, 13]\<rparr>"
    by simp
  ultimately show ?thesis by simp
qed

end
